theory Spec2Isabelle
  imports Complex_Main "HOL-Library.Word"
begin

section \<open>Exceptions, configuration and the pyserial boundary\<close>

text \<open>
  The model follows \<^verbatim>\<open>serial_manager.py\<close>. A Python exception is a value of
  \<open>error\<close>; a call that raises returns \<open>Inl\<close> of it. The first two constructors are the
  exceptions the module raises itself, \<open>AttributeError\<close> is what Python raises for a
  method call on \<^verbatim>\<open>None\<close>, and \<open>SerialException\<close> stands for whatever the pyserial
  library raises (the environment below may make a library call raise any \<open>error\<close>).
\<close>

datatype error =
    RuntimeError string
  | ValueError string
  | AttributeError string
  | SerialException string

type_synonym 'a result = "error + 'a"

type_synonym bytes = "8 word list"

text \<open>
  The error kinds of the specification, as the exceptions the module raises for them:
  \<^verbatim>\<open>RuntimeError("pyserial is not installed.")\<close>, \<^verbatim>\<open>ValueError("Port is empty.")\<close> and
  \<^verbatim>\<open>RuntimeError("Not connected.")\<close>.
\<close>

definition CapabilityUnavailable :: error where
  "CapabilityUnavailable = RuntimeError ''pyserial is not installed.''"

definition InvalidArgument :: error where
  "InvalidArgument = ValueError ''Port is empty.''"

definition NotConnected :: error where
  "NotConnected = RuntimeError ''Not connected.''"

text \<open>
  \<^verbatim>\<open>@dataclass class SerialConfig\<close>. The float literal \<^verbatim>\<open>0.1\<close> is kept as the number
  it denotes; the module never computes with it, it only passes it on.
\<close>

record SerialConfig =
  baudrate :: int
  timeout_s :: real

definition SerialConfig_default :: SerialConfig where
  "SerialConfig_default = \<lparr>baudrate = 115200, timeout_s = 0.1\<rparr>"

text \<open>
  The object \<^verbatim>\<open>serial.Serial(port=..., baudrate=..., timeout=...)\<close> returns, with the
  attribute \<^verbatim>\<open>is_open\<close> the module reads, and an entry of \<^verbatim>\<open>list_ports.comports()\<close>
  with the attribute \<^verbatim>\<open>device\<close>.
\<close>

record Serial =
  port :: string
  ser_baudrate :: int
  ser_timeout :: real
  is_open :: bool

record ListPortInfo =
  device :: string

text \<open>
  pyserial is an external library. The environment holds the module constant
  \<^verbatim>\<open>HAS_SERIAL\<close> (set once, when the import is tried) and the outcome of every library
  call: whether opening a port raises, whether \<^verbatim>\<open>close\<close> and \<^verbatim>\<open>write\<close> raise, what
  \<^verbatim>\<open>read\<close> gives, and what \<^verbatim>\<open>comports()\<close> gives.
\<close>

record env =
  HAS_SERIAL :: bool
  open_raises :: "string \<Rightarrow> int \<Rightarrow> real \<Rightarrow> error option"
  close_raises :: "Serial \<Rightarrow> error option"
  write_raises :: "Serial \<Rightarrow> bytes \<Rightarrow> error option"
  read_result :: "Serial \<Rightarrow> int \<Rightarrow> bytes result"
  comports :: "ListPortInfo list result"

text \<open>
  Every call into pyserial is recorded as an event, with its outcome: these are the
  device accesses of an operation.
\<close>

datatype event =
    Serial_open string int real "error option"
  | Serial_close string "error option"
  | Serial_write string bytes "error option"
  | Serial_read string int "bytes result"
  | Comports "error option"

text \<open>
  The constructor of \<^verbatim>\<open>serial.Serial\<close>, given a port, opens it at once: it either raises
  or returns an open object carrying the arguments.
\<close>

definition serial_Serial :: "env \<Rightarrow> string \<Rightarrow> int \<Rightarrow> real \<Rightarrow> Serial result" where
  "serial_Serial e p b t =
     (case open_raises e p b t of
        Some x \<Rightarrow> Inl x
      | None \<Rightarrow> Inr \<lparr>port = p, ser_baudrate = b, ser_timeout = t, is_open = True\<rparr>)"

section \<open>SerialManager\<close>

text \<open>
  The fields \<^verbatim>\<open>cfg\<close>, \<^verbatim>\<open>_ser\<close> and \<^verbatim>\<open>_lock\<close>. The lock is a \<^verbatim>\<open>threading.Lock\<close>, which is
  not reentrant; \<open>lock\<close> says whether it is held.
\<close>

record SerialManager =
  cfg :: SerialConfig
  ser :: "Serial option"
  lock :: bool

text \<open>
  A call either never returns (\<open>None\<close>) or ends, by returning or raising, with the
  library calls it made and the manager it leaves.
\<close>

type_synonym 'a call = "('a result \<times> event list \<times> SerialManager) option"

text \<open>\<^verbatim>\<open>__init__\<close>: \<^verbatim>\<open>cfg or SerialConfig()\<close>; a dataclass instance is never falsy.\<close>

definition init :: "SerialConfig option \<Rightarrow> SerialManager" where
  "init c =
     \<lparr>cfg = (case c of None \<Rightarrow> SerialConfig_default | Some k \<Rightarrow> k),
      ser = None, lock = False\<rparr>"

text \<open>
  Acquiring a held \<^verbatim>\<open>threading.Lock\<close> waits until some other thread releases it. The
  operations are run one at a time here, so nobody else releases: the call never returns.
\<close>

definition acquire :: "SerialManager \<Rightarrow> SerialManager option" where
  "acquire m = (if lock m then None else Some (m\<lparr>lock := True\<rparr>))"

text \<open>Releasing a lock that is not held raises \<^verbatim>\<open>RuntimeError\<close>.\<close>

definition release :: "SerialManager \<Rightarrow> SerialManager result" where
  "release m =
     (if lock m then Inr (m\<lparr>lock := False\<rparr>) else Inl (RuntimeError ''release unlocked lock''))"

text \<open>
  \<^verbatim>\<open>with self._lock:\<close> acquires, runs the body, and releases whether the body returned
  or raised.
\<close>

definition with_lock :: "SerialManager \<Rightarrow> (SerialManager \<Rightarrow> 'a call) \<Rightarrow> 'a call" where
  "with_lock m body =
     (case acquire m of
        None \<Rightarrow> None
      | Some m1 \<Rightarrow>
          (case body m1 of
             None \<Rightarrow> None
           | Some (r, evs, m2) \<Rightarrow>
               (case release m2 of
                  Inl x \<Rightarrow> Some (Inl x, evs, m2)
                | Inr m3 \<Rightarrow> Some (r, evs, m3))))"

text \<open>\<^verbatim>\<open>self._ser is not None and getattr(self._ser, "is_open", False)\<close>\<close>

definition ser_is_open :: "SerialManager \<Rightarrow> bool" where
  "ser_is_open m = (case ser m of None \<Rightarrow> False | Some h \<Rightarrow> is_open h)"

definition has_serial :: "env \<Rightarrow> bool" where
  "has_serial e = HAS_SERIAL e"

definition is_connected :: "SerialManager \<Rightarrow> bool call" where
  "is_connected m = with_lock m (\<lambda>m1. Some (Inr (ser_is_open m1), [], m1))"

definition connect :: "env \<Rightarrow> SerialManager \<Rightarrow> string \<Rightarrow> unit call" where
  "connect e m p =
     (if \<not> HAS_SERIAL e then Some (Inl (RuntimeError ''pyserial is not installed.''), [], m)
      else if p = [] then Some (Inl (ValueError ''Port is empty.''), [], m)
      else with_lock m (\<lambda>m1.
        if ser_is_open m1 then Some (Inr (), [], m1)
        else
          (case serial_Serial e p (baudrate (cfg m1)) (timeout_s (cfg m1)) of
             Inl x \<Rightarrow>
               Some (Inl x,
                     [Serial_open p (baudrate (cfg m1)) (timeout_s (cfg m1)) (Some x)], m1)
           | Inr h \<Rightarrow>
               Some (Inr (),
                     [Serial_open p (baudrate (cfg m1)) (timeout_s (cfg m1)) None],
                     m1\<lparr>ser := Some h\<rparr>))))"

text \<open>
  \<^verbatim>\<open>disconnect\<close>: the \<^verbatim>\<open>except Exception: pass\<close> around \<^verbatim>\<open>close()\<close> drops whatever it
  raised; the event keeps it.
\<close>

definition disconnect :: "env \<Rightarrow> SerialManager \<Rightarrow> unit call" where
  "disconnect e m =
     with_lock m (\<lambda>m1.
       Some (Inr (),
             (case ser m1 of
                None \<Rightarrow> []
              | Some h \<Rightarrow> [Serial_close (port h) (close_raises e h)]),
             m1\<lparr>ser := None\<rparr>))"

text \<open>\<^verbatim>\<open>list_ports_blocking\<close> takes no lock and does not touch the manager.\<close>

definition list_ports_blocking :: "env \<Rightarrow> SerialManager \<Rightarrow> string list call" where
  "list_ports_blocking e m =
     (if \<not> HAS_SERIAL e then Some (Inr [], [], m)
      else
        (case comports e of
           Inl x \<Rightarrow> Some (Inr [], [Comports (Some x)], m)
         | Inr ps \<Rightarrow> Some (Inr (map device ps), [Comports None], m)))"

text \<open>
  \<^verbatim>\<open>write\<close> and \<^verbatim>\<open>read\<close> take the lock and then evaluate the property
  \<^verbatim>\<open>self.is_connected\<close>, which takes the lock itself.
\<close>

definition "write" :: "env \<Rightarrow> SerialManager \<Rightarrow> bytes \<Rightarrow> unit call" where
  "write e m d =
     with_lock m (\<lambda>m1.
       case is_connected m1 of
         None \<Rightarrow> None
       | Some (Inl x, evs, m2) \<Rightarrow> Some (Inl x, evs, m2)
       | Some (Inr c, evs, m2) \<Rightarrow>
           if \<not> c then Some (Inl (RuntimeError ''Not connected.''), evs, m2)
           else
             (case ser m2 of
                None \<Rightarrow> Some (Inl (AttributeError ''write''), evs, m2)
              | Some h \<Rightarrow>
                  (case write_raises e h d of
                     Some x \<Rightarrow> Some (Inl x, evs @ [Serial_write (port h) d (Some x)], m2)
                   | None \<Rightarrow> Some (Inr (), evs @ [Serial_write (port h) d None], m2))))"

definition read :: "env \<Rightarrow> SerialManager \<Rightarrow> int \<Rightarrow> bytes call" where
  "read e m n =
     with_lock m (\<lambda>m1.
       case is_connected m1 of
         None \<Rightarrow> None
       | Some (Inl x, evs, m2) \<Rightarrow> Some (Inl x, evs, m2)
       | Some (Inr c, evs, m2) \<Rightarrow>
           if \<not> c then Some (Inl (RuntimeError ''Not connected.''), evs, m2)
           else
             (case ser m2 of
                None \<Rightarrow> Some (Inl (AttributeError ''read''), evs, m2)
              | Some h \<Rightarrow>
                  (case read_result e h n of
                     Inl x \<Rightarrow> Some (Inl x, evs @ [Serial_read (port h) n (Inl x)], m2)
                   | Inr b \<Rightarrow> Some (Inr b, evs @ [Serial_read (port h) n (Inr b)], m2))))"

section \<open>Sequences of operations\<close>

text \<open>
  The public surface of the class, as the caller sees it: the five methods and the two
  properties. A caller that catches what an operation raised goes on with the next one.
\<close>

datatype op =
    Connect string
  | Disconnect
  | List_ports
  | Write bytes
  | Read int
  | Is_connected
  | Has_serial

datatype ret = RNone | RBool bool | RPorts "string list" | RBytes bytes

definition returning :: "('a \<Rightarrow> ret) \<Rightarrow> 'a call \<Rightarrow> ret call" where
  "returning f c = map_option (\<lambda>(r, evs, m). (map_sum id f r, evs, m)) c"

fun step :: "env \<Rightarrow> SerialManager \<Rightarrow> op \<Rightarrow> ret call" where
  "step e m (Connect p) = returning (\<lambda>_. RNone) (connect e m p)"
| "step e m Disconnect = returning (\<lambda>_. RNone) (disconnect e m)"
| "step e m List_ports = returning RPorts (list_ports_blocking e m)"
| "step e m (Write d) = returning (\<lambda>_. RNone) (write e m d)"
| "step e m (Read n) = returning RBytes (read e m n)"
| "step e m Is_connected = returning RBool (is_connected m)"
| "step e m Has_serial = Some (Inr (RBool (has_serial e)), [], m)"

text \<open>
  A script gives each operation together with the environment it meets (devices come and
  go between calls). The run collects the library calls; it has no value when one of the
  operations never returns.
\<close>

fun run :: "SerialManager \<Rightarrow> (env \<times> op) list \<Rightarrow> (event list \<times> SerialManager) option" where
  "run m [] = Some ([], m)"
| "run m ((e, oper) # rest) =
     (case step e m oper of
        None \<Rightarrow> None
      | Some (r, evs, m1) \<Rightarrow>
          (case run m1 rest of
             None \<Rightarrow> None
           | Some (evs', m2) \<Rightarrow> Some (evs @ evs', m2)))"

text \<open>
  The handles a list of library calls leaves open: one more for every constructor call
  that returned, one fewer for every \<^verbatim>\<open>close\<close> (the object is dropped right after it,
  whether \<^verbatim>\<open>close\<close> raised or not).
\<close>

fun handle_delta :: "event \<Rightarrow> int" where
  "handle_delta (Serial_open _ _ _ None) = 1"
| "handle_delta (Serial_close _ _) = - 1"
| "handle_delta _ = 0"

definition open_handles :: "event list \<Rightarrow> int" where
  "open_handles evs = sum_list (map handle_delta evs)"

text \<open>
  Three environments for the examples: pyserial present and every call succeeding;
  pyserial missing; pyserial present and every call raising.
\<close>

definition env_ok :: env where
  "env_ok =
     \<lparr>HAS_SERIAL = True,
      open_raises = (\<lambda>p b t. None),
      close_raises = (\<lambda>h. None),
      write_raises = (\<lambda>h d. None),
      read_result = (\<lambda>h n. Inr []),
      comports = Inr [\<lparr>device = ''COM3''\<rparr>, \<lparr>device = ''COM4''\<rparr>]\<rparr>"

definition env_off :: env where
  "env_off = env_ok\<lparr>HAS_SERIAL := False\<rparr>"

definition env_bad :: env where
  "env_bad =
     \<lparr>HAS_SERIAL = True,
      open_raises = (\<lambda>p b t. Some (SerialException ''could not open port'')),
      close_raises = (\<lambda>h. Some (SerialException ''close failed'')),
      write_raises = (\<lambda>h d. Some (SerialException ''write failed'')),
      read_result = (\<lambda>h n. Inl (SerialException ''read failed'')),
      comports = Inl (SerialException ''enumeration failed'')\<rparr>"

text \<open>The handle a successful \<^verbatim>\<open>connect(p)\<close> stores.\<close>

definition opened :: "SerialManager \<Rightarrow> string \<Rightarrow> Serial" where
  "opened m p =
     \<lparr>port = p, ser_baudrate = baudrate (cfg m), ser_timeout = timeout_s (cfg m),
      is_open = True\<rparr>"

text \<open>
  A manager connected to \<^verbatim>\<open>COM3\<close>, and two scripts: one that connects, reconnects,
  loses the device and connects again, and one run without pyserial.
\<close>

definition mgr_connected :: SerialManager where
  "mgr_connected = (init None)\<lparr>ser := Some (opened (init None) ''COM3'')\<rparr>"

definition script_example :: "(env \<times> op) list" where
  "script_example =
     [(env_ok, Connect ''COM3''), (env_ok, Is_connected), (env_ok, Connect ''COM4''),
      (env_ok, List_ports), (env_bad, Disconnect), (env_bad, Connect ''COM5''),
      (env_ok, Connect ''COM5''), (env_ok, Has_serial)]"

definition script_off :: "(env \<times> op) list" where
  "script_off =
     [(env_off, Connect ''COM3''), (env_off, List_ports), (env_off, Is_connected),
      (env_off, Disconnect), (env_off, Has_serial)]"

section \<open>The operations on a manager whose lock is free\<close>

lemma acquire_held: "lock m \<Longrightarrow> acquire m = None"
  by (simp add: acquire_def)

lemma acquire_free: "\<not> lock m \<Longrightarrow> acquire m = Some (m\<lparr>lock := True\<rparr>)"
  by (simp add: acquire_def)

lemma release_acquired: "\<not> lock m \<Longrightarrow> release (m\<lparr>lock := True\<rparr>) = Inr m"
  by (simp add: release_def)

lemma ser_is_open_locked: "ser_is_open (m\<lparr>lock := b\<rparr>) = ser_is_open m"
  by (simp add: ser_is_open_def)

lemma is_connected_held: "lock m \<Longrightarrow> is_connected m = None"
  by (simp add: is_connected_def with_lock_def acquire_held)

lemma is_connected_free: "\<not> lock m \<Longrightarrow> is_connected m = Some (Inr (ser_is_open m), [], m)"
  by (simp add: is_connected_def with_lock_def acquire_free release_acquired
      ser_is_open_locked)

lemma write_blocks: "write e m d = None"
proof (cases "lock m")
  case True
  then show ?thesis
    by (simp add: write_def with_lock_def acquire_held)
next
  case False
  have "is_connected (m\<lparr>lock := True\<rparr>) = None"
    by (rule is_connected_held) simp
  with False show ?thesis
    by (simp add: write_def with_lock_def acquire_free)
qed

lemma read_blocks: "read e m n = None"
proof (cases "lock m")
  case True
  then show ?thesis
    by (simp add: read_def with_lock_def acquire_held)
next
  case False
  have "is_connected (m\<lparr>lock := True\<rparr>) = None"
    by (rule is_connected_held) simp
  with False show ?thesis
    by (simp add: read_def with_lock_def acquire_free)
qed

lemma connect_unavailable:
  "\<not> HAS_SERIAL e \<Longrightarrow> connect e m p = Some (Inl CapabilityUnavailable, [], m)"
  by (simp add: connect_def CapabilityUnavailable_def)

lemma connect_empty:
  "HAS_SERIAL e \<Longrightarrow> connect e m [] = Some (Inl InvalidArgument, [], m)"
  by (simp add: connect_def InvalidArgument_def)

lemma connect_already:
  "HAS_SERIAL e \<Longrightarrow> p \<noteq> [] \<Longrightarrow> \<not> lock m \<Longrightarrow> ser_is_open m \<Longrightarrow>
   connect e m p = Some (Inr (), [], m)"
  by (simp add: connect_def with_lock_def acquire_free release_acquired ser_is_open_locked)

lemma connect_opens:
  "HAS_SERIAL e \<Longrightarrow> p \<noteq> [] \<Longrightarrow> \<not> lock m \<Longrightarrow> \<not> ser_is_open m \<Longrightarrow>
   open_raises e p (baudrate (cfg m)) (timeout_s (cfg m)) = None \<Longrightarrow>
   connect e m p =
     Some (Inr (), [Serial_open p (baudrate (cfg m)) (timeout_s (cfg m)) None],
           m\<lparr>ser := Some (opened m p)\<rparr>)"
  by (simp add: connect_def with_lock_def acquire_free release_def ser_is_open_locked
      serial_Serial_def opened_def)

lemma connect_open_raises:
  "HAS_SERIAL e \<Longrightarrow> p \<noteq> [] \<Longrightarrow> \<not> lock m \<Longrightarrow> \<not> ser_is_open m \<Longrightarrow>
   open_raises e p (baudrate (cfg m)) (timeout_s (cfg m)) = Some x \<Longrightarrow>
   connect e m p =
     Some (Inl x, [Serial_open p (baudrate (cfg m)) (timeout_s (cfg m)) (Some x)], m)"
  by (simp add: connect_def with_lock_def acquire_free release_acquired ser_is_open_locked
      serial_Serial_def)

lemma disconnect_free:
  "\<not> lock m \<Longrightarrow>
   disconnect e m =
     Some (Inr (),
           (case ser m of None \<Rightarrow> [] | Some h \<Rightarrow> [Serial_close (port h) (close_raises e h)]),
           m\<lparr>ser := None\<rparr>)"
  by (simp add: disconnect_def with_lock_def acquire_free release_def)

lemma disconnect_held: "lock m \<Longrightarrow> disconnect e m = None"
  by (simp add: disconnect_def with_lock_def acquire_held)

lemma ser_is_open_opened: "ser_is_open (m\<lparr>ser := Some (opened m p)\<rparr>)"
  by (simp add: ser_is_open_def opened_def)

lemma connect_held:
  "HAS_SERIAL e \<Longrightarrow> p \<noteq> [] \<Longrightarrow> lock m \<Longrightarrow> connect e m p = None"
  by (simp add: connect_def with_lock_def acquire_held)

lemma connect_cfg: "connect e m p = Some (r, evs, m') \<Longrightarrow> cfg m' = cfg m"
  by (auto simp: connect_def with_lock_def acquire_def release_def
      split: if_splits sum.splits)

lemma disconnect_cfg: "disconnect e m = Some (r, evs, m') \<Longrightarrow> cfg m' = cfg m"
  by (auto simp: disconnect_def with_lock_def acquire_def release_def split: if_splits)

lemma is_connected_cfg: "is_connected m = Some (r, evs, m') \<Longrightarrow> cfg m' = cfg m"
  by (auto simp: is_connected_def with_lock_def acquire_def release_def split: if_splits)

lemma list_ports_same: "list_ports_blocking e m = Some (r, evs, m') \<Longrightarrow> m' = m"
  by (auto simp: list_ports_blocking_def split: if_splits sum.splits)

lemma step_cfg: "step e m oper = Some (r, evs, m') \<Longrightarrow> cfg m' = cfg m"
  by (cases oper)
    (auto simp: returning_def write_blocks read_blocks
      dest: connect_cfg disconnect_cfg is_connected_cfg list_ports_same)

lemma run_cfg: "run m script = Some (evs, m') \<Longrightarrow> cfg m' = cfg m"
proof (induction script arbitrary: m evs)
  case Nil
  then show ?case by simp
next
  case (Cons a script)
  obtain e oper where a: "a = (e, oper)" by (cases a)
  from Cons.prems a obtain r evs1 m1 evs2
    where s: "step e m oper = Some (r, evs1, m1)" and t: "run m1 script = Some (evs2, m')"
    by (auto split: option.splits)
  from Cons.IH [OF t] step_cfg [OF s] show ?case by simp
qed

section \<open>What every operation keeps\<close>

text \<open>
  An operation that ends on a manager whose lock is free and whose handle is absent or
  open leaves such a manager, and changes the number of handles in use by what its
  library calls opened and closed.
\<close>

lemma connect_inv:
  assumes "connect e m p = Some (r, evs, m')" and "\<not> lock m"
    and "ser m = None \<or> ser_is_open m"
  shows "\<not> lock m' \<and> (ser m' = None \<or> ser_is_open m') \<and>
    (if ser m' = None then 0 else 1) = (if ser m = None then 0 else 1) + open_handles evs"
proof (cases "HAS_SERIAL e \<and> p \<noteq> []")
  case False
  with assms show ?thesis
    by (auto simp: connect_def open_handles_def split: if_splits)
next
  case True
  note t = this
  show ?thesis
  proof (cases "ser_is_open m")
    case True
    with t assms show ?thesis
      by (auto simp: connect_already open_handles_def ser_is_open_def)
  next
    case False
    with assms have n: "ser m = None" by simp
    show ?thesis
    proof (cases "open_raises e p (baudrate (cfg m)) (timeout_s (cfg m))")
      case None
      with t False assms n show ?thesis
        by (auto simp: connect_opens open_handles_def ser_is_open_opened)
    next
      case (Some x)
      with t False assms n show ?thesis
        by (auto simp: connect_open_raises open_handles_def)
    qed
  qed
qed

lemma disconnect_inv:
  assumes "disconnect e m = Some (r, evs, m')" and "\<not> lock m"
  shows "\<not> lock m' \<and> ser m' = None \<and>
    0 = (if ser m = None then 0 else 1) + open_handles evs"
  using assms by (auto simp: disconnect_free open_handles_def split: option.splits)

lemma step_inv:
  assumes "step e m oper = Some (r, evs, m')" and "\<not> lock m"
    and "ser m = None \<or> ser_is_open m"
  shows "\<not> lock m' \<and> (ser m' = None \<or> ser_is_open m') \<and>
    (if ser m' = None then 0 else 1) = (if ser m = None then 0 else 1) + open_handles evs"
proof (cases oper)
  case (Connect p)
  with assms obtain r0 where "connect e m p = Some (r0, evs, m')"
    by (auto simp: returning_def)
  from connect_inv [OF this assms(2,3)] show ?thesis .
next
  case Disconnect
  with assms obtain r0 where "disconnect e m = Some (r0, evs, m')"
    by (auto simp: returning_def)
  from disconnect_inv [OF this assms(2)] show ?thesis by simp
next
  case List_ports
  with assms obtain r0 where c: "list_ports_blocking e m = Some (r0, evs, m')"
    by (auto simp: returning_def)
  then have "open_handles evs = 0"
    by (auto simp: list_ports_blocking_def open_handles_def split: if_splits sum.splits)
  with list_ports_same [OF c] assms show ?thesis by simp
next
  case (Write d)
  with assms show ?thesis by (simp add: returning_def write_blocks)
next
  case (Read n)
  with assms show ?thesis by (simp add: returning_def read_blocks)
next
  case Is_connected
  with assms show ?thesis
    by (auto simp: returning_def is_connected_free open_handles_def)
next
  case Has_serial
  with assms show ?thesis by (auto simp: open_handles_def)
qed

lemma open_handles_append: "open_handles (xs @ ys) = open_handles xs + open_handles ys"
  by (simp add: open_handles_def)

lemma run_inv:
  assumes "run m script = Some (evs, m')" and "\<not> lock m"
    and "ser m = None \<or> ser_is_open m"
  shows "\<not> lock m' \<and> (ser m' = None \<or> ser_is_open m') \<and>
    (if ser m' = None then 0 else 1) = (if ser m = None then 0 else 1) + open_handles evs"
  using assms
proof (induction script arbitrary: m evs)
  case Nil
  then show ?case by (simp add: open_handles_def)
next
  case (Cons a script)
  obtain e oper where a: "a = (e, oper)" by (cases a)
  from Cons.prems(1) a obtain r evs1 m1 evs2
    where s: "step e m oper = Some (r, evs1, m1)" and t: "run m1 script = Some (evs2, m')"
      and ev: "evs = evs1 @ evs2"
    by (auto split: option.splits)
  from step_inv [OF s Cons.prems(2,3)]
  have i1: "\<not> lock m1" and i2: "ser m1 = None \<or> ser_is_open m1"
    and i3: "(if ser m1 = None then 0 else 1) = (if ser m = None then 0 else 1) + open_handles evs1"
    by blast+
  from Cons.IH [OF t i1 i2]
  have j1: "\<not> lock m'" and j2: "ser m' = None \<or> ser_is_open m'"
    and j3: "(if ser m' = None then 0 else 1) = (if ser m1 = None then 0 else 1) + open_handles evs2"
    by blast+
  from i3 j3 have "(if ser m' = None then 0 else 1) =
      (if ser m = None then 0 else 1) + open_handles (evs1 @ evs2)"
    by (simp only: open_handles_append)
  with j1 j2 ev show ?case by simp
qed

lemma run_unavailable:
  assumes "run m script = Some (evs, m')" and "list_all (\<lambda>x. \<not> HAS_SERIAL (fst x)) script"
    and "\<not> lock m" and "ser m = None"
  shows "\<not> lock m' \<and> ser m' = None \<and> evs = []"
  using assms
proof (induction script arbitrary: m evs)
  case Nil
  then show ?case by simp
next
  case (Cons a script)
  obtain e oper where a: "a = (e, oper)" by (cases a)
  from Cons.prems(2) a have off: "\<not> HAS_SERIAL e"
    and rest: "list_all (\<lambda>x. \<not> HAS_SERIAL (fst x)) script"
    by simp_all
  from Cons.prems(1) a obtain r evs1 m1 evs2
    where s: "step e m oper = Some (r, evs1, m1)" and t: "run m1 script = Some (evs2, m')"
      and ev: "evs = evs1 @ evs2"
    by (auto split: option.splits)
  have "m1 = m \<and> evs1 = []"
  proof (cases oper)
    case (Connect p)
    with s off show ?thesis by (auto simp: returning_def connect_unavailable)
  next
    case Disconnect
    with s Cons.prems(3,4) show ?thesis
      by (auto simp: returning_def disconnect_free)
  next
    case List_ports
    with s off show ?thesis by (auto simp: returning_def list_ports_blocking_def)
  next
    case (Write d)
    with s show ?thesis by (simp add: returning_def write_blocks)
  next
    case (Read n)
    with s show ?thesis by (simp add: returning_def read_blocks)
  next
    case Is_connected
    with s Cons.prems(3) show ?thesis by (auto simp: returning_def is_connected_free)
  next
    case Has_serial
    with s show ?thesis by auto
  qed
  with Cons.IH [OF _ rest] t Cons.prems(3,4) ev show ?case by simp
qed

text \<open>
  After a \<^verbatim>\<open>disconnect()\<close> that returned, \<^verbatim>\<open>is_connected\<close> is false, whatever the
  manager was before.
\<close>

lemma disconnect_then_not_connected:
  assumes "disconnect e m = Some (r, evs, m')"
  shows "is_connected m' = Some (Inr False, [], m')"
proof (cases "lock m")
  case True
  with assms show ?thesis by (simp add: disconnect_held)
next
  case False
  with assms have "m' = m\<lparr>ser := None\<rparr>" by (simp add: disconnect_free)
  with False show ?thesis by (simp add: is_connected_free ser_is_open_def)
qed

text \<open>A \<^verbatim>\<open>disconnect()\<close> that ends, from any manager: what it returned, called and left.\<close>

lemma disconnect_ends:
  assumes a: "disconnect e m = Some (r, evs, m')"
  shows "r = Inr () \<and> m' = m\<lparr>ser := None\<rparr> \<and>
      evs = (case ser m of
               None \<Rightarrow> []
             | Some h \<Rightarrow> [Serial_close (port h) (close_raises e h)])"
proof -
  have f: "\<not> lock m"
  proof
    assume "lock m"
    with a show False by (simp add: disconnect_held)
  qed
  from a show ?thesis unfolding disconnect_free [OF f, of e] by simp
qed

section \<open>The claims\<close>

text \<open>The equations that evaluate the model on a concrete manager, environment or script.\<close>

lemmas exec_defs =
  connect_def disconnect_def is_connected_def list_ports_blocking_def with_lock_def
  acquire_def release_def ser_is_open_def serial_Serial_def has_serial_def returning_def
  init_def SerialConfig_default_def opened_def env_ok_def env_off_def env_bad_def
  script_example_def script_off_def mgr_connected_def open_handles_def
  CapabilityUnavailable_def InvalidArgument_def NotConnected_def

text \<open>
  C1. After any \<^verbatim>\<open>disconnect()\<close>, \<^verbatim>\<open>is_connected\<close> is false and a following
  \<^verbatim>\<open>write(data)\<close> or \<^verbatim>\<open>read(n)\<close> fails with NotConnected. The code at the shortest such
  run, a new manager disconnected once: \<^verbatim>\<open>disconnect()\<close> returns and \<^verbatim>\<open>is_connected\<close> is
  false, but \<^verbatim>\<open>write(b"A")\<close> and \<^verbatim>\<open>read(1)\<close> never end, so they raise nothing.
\<close>

theorem write_read_after_disconnect:
  "disconnect env_ok (init None) = Some (Inr (), [], init None) \<and>
   is_connected (init None) = Some (Inr False, [], init None) \<and>
   write env_ok (init None) [65] = None \<and>
   read env_ok (init None) 1 = None"
  by (simp add: write_blocks read_blocks disconnect_free is_connected_free init_def
      ser_is_open_def)

text \<open>
  C2. Whatever the manager (connected or not, lock free or held) and whatever the
  argument, \<^verbatim>\<open>write(data)\<close> and \<^verbatim>\<open>read(n)\<close> neither return nor raise: they hold the
  lock when \<^verbatim>\<open>is_connected\<close> tries to take it again.
\<close>

theorem write_read_never_end: "write e m d = None \<and> read e m n = None"
  by (simp add: write_blocks read_blocks)

text \<open>
  C3, as stated: \<^verbatim>\<open>connect("")\<close> fails with InvalidArgument whether or not pyserial is
  available. Without pyserial it fails with CapabilityUnavailable instead, a different
  exception.
\<close>

theorem connect_empty_unavailable:
  "connect env_off (init None) [] = Some (Inl CapabilityUnavailable, [], init None) \<and>
   CapabilityUnavailable \<noteq> InvalidArgument"
  by (simp add: connect_def env_off_def env_ok_def CapabilityUnavailable_def
      InvalidArgument_def)

text \<open>
  C3, amended: \<^verbatim>\<open>connect("")\<close> fails with InvalidArgument when pyserial is available and
  with CapabilityUnavailable when it is not (the availability check comes first); in both
  cases it makes no library call and leaves the manager as it was, even with the lock held.
\<close>

theorem connect_empty_port:
  "connect e m [] =
     Some (Inl (if HAS_SERIAL e then InvalidArgument else CapabilityUnavailable), [], m)"
  by (simp add: connect_unavailable connect_empty)

theorem connect_empty_port_witness:
  "connect env_ok mgr_connected [] = Some (Inl (ValueError ''Port is empty.''), [], mgr_connected) \<and>
   connect env_off mgr_connected [] =
     Some (Inl (RuntimeError ''pyserial is not installed.''), [], mgr_connected)"
  using connect_empty_port [of env_ok mgr_connected] connect_empty_port [of env_off mgr_connected]
  by (simp add: env_ok_def env_off_def InvalidArgument_def CapabilityUnavailable_def)

text \<open>
  C4. After any sequence of operations on a new manager that ran to its end, the handle
  is absent or open, and the handles the library calls of the run left in use are as many
  as the manager holds: none or one.
\<close>

theorem handle_absent_or_open:
  assumes "run (init c) script = Some (evs, m)"
  shows "(ser m = None \<or> ser_is_open m) \<and>
    open_handles evs = (if ser m = None then 0 else 1) \<and>
    0 \<le> open_handles evs \<and> open_handles evs \<le> 1"
proof -
  have "\<not> lock (init c)" and "ser (init c) = None \<or> ser_is_open (init c)"
    by (simp_all add: init_def)
  from run_inv [OF assms this]
  have "ser m = None \<or> ser_is_open m"
    and "(if ser m = None then 0 else 1) = (if ser (init c) = None then 0 else 1) + open_handles evs"
    by blast+
  then show ?thesis by (simp add: init_def split: if_splits)
qed

theorem handle_absent_or_open_witness:
  "run (init None) script_example =
     Some ([Serial_open ''COM3'' 115200 0.1 None, Comports None,
            Serial_close ''COM3'' (Some (SerialException ''close failed'')),
            Serial_open ''COM5'' 115200 0.1 (Some (SerialException ''could not open port'')),
            Serial_open ''COM5'' 115200 0.1 None],
           (init None)\<lparr>ser := Some (opened (init None) ''COM5'')\<rparr>) \<and>
   ser_is_open ((init None)\<lparr>ser := Some (opened (init None) ''COM5'')\<rparr>) \<and>
   open_handles
     [Serial_open ''COM3'' 115200 0.1 None, Comports None,
      Serial_close ''COM3'' (Some (SerialException ''close failed'')),
      Serial_open ''COM5'' 115200 0.1 (Some (SerialException ''could not open port'')),
      Serial_open ''COM5'' 115200 0.1 None] = 1"
proof -
  have h: "run (init None) script_example =
     Some ([Serial_open ''COM3'' 115200 0.1 None, Comports None,
            Serial_close ''COM3'' (Some (SerialException ''close failed'')),
            Serial_open ''COM5'' 115200 0.1 (Some (SerialException ''could not open port'')),
            Serial_open ''COM5'' 115200 0.1 None],
           (init None)\<lparr>ser := Some (opened (init None) ''COM5'')\<rparr>)"
    by (simp add: exec_defs)
  from handle_absent_or_open [OF h] h show ?thesis by simp
qed

text \<open>
  C5. With pyserial available, a port that is not empty and that opens, and the lock
  free: two calls of \<^verbatim>\<open>connect(port)\<close> in a row both return; the manager then holds an
  open handle; the second call makes no library call and changes nothing. When no handle
  was open before, the first call opens exactly one.
\<close>

theorem connect_twice:
  assumes "HAS_SERIAL e" and "HAS_SERIAL e'" and "p \<noteq> []" and "\<not> lock m"
    and "open_raises e p (baudrate (cfg m)) (timeout_s (cfg m)) = None"
  shows "\<exists>evs1 m1.
    connect e m p = Some (Inr (), evs1, m1) \<and>
    connect e' m1 p = Some (Inr (), [], m1) \<and>
    ser_is_open m1 \<and> \<not> lock m1 \<and>
    (if ser_is_open m then evs1 = [] \<and> m1 = m
     else evs1 = [Serial_open p (baudrate (cfg m)) (timeout_s (cfg m)) None] \<and>
          m1 = m\<lparr>ser := Some (opened m p)\<rparr> \<and> open_handles evs1 = 1)"
proof (cases "ser_is_open m")
  case True
  with assms show ?thesis
    by (simp add: connect_already)
next
  case False
  let ?m1 = "m\<lparr>ser := Some (opened m p)\<rparr>"
  have o: "ser_is_open ?m1" by (rule ser_is_open_opened)
  have l: "\<not> lock ?m1" using assms(4) by simp
  from connect_already [OF assms(2,3) l o] connect_opens [OF assms(1,3,4) False assms(5)]
    False o l
  show ?thesis by (simp add: open_handles_def)
qed

theorem connect_twice_witness:
  "connect env_ok (init None) ''COM3'' =
     Some (Inr (), [Serial_open ''COM3'' 115200 0.1 None], mgr_connected) \<and>
   connect env_bad mgr_connected ''COM3'' = Some (Inr (), [], mgr_connected) \<and>
   ser_is_open mgr_connected \<and>
   open_handles [Serial_open ''COM3'' 115200 0.1 None] = 1"
proof -
  have a: "HAS_SERIAL env_ok" and b: "HAS_SERIAL env_bad" and c: "''COM3'' \<noteq> []"
    and d: "\<not> lock (init None)"
    and f: "open_raises env_ok ''COM3'' (baudrate (cfg (init None)))
      (timeout_s (cfg (init None))) = None"
    by (simp_all add: env_ok_def env_bad_def init_def)
  have g: "\<not> ser_is_open (init None)"
    by (simp add: ser_is_open_def init_def)
  from connect_twice [OF a b c d f] g show ?thesis
    by (simp add: mgr_connected_def init_def SerialConfig_default_def)
qed

text \<open>
  C6. With pyserial available, a port that is not empty, the lock free and no open
  handle: when the constructor \<^verbatim>\<open>serial.Serial\<close> raises, \<^verbatim>\<open>connect\<close> raises that very
  exception and the manager is as before, so an absent handle stays absent.
\<close>

theorem connect_open_failure:
  assumes "HAS_SERIAL e" and "p \<noteq> []" and "\<not> lock m" and "\<not> ser_is_open m"
    and "open_raises e p (baudrate (cfg m)) (timeout_s (cfg m)) = Some x"
  shows "connect e m p =
      Some (Inl x, [Serial_open p (baudrate (cfg m)) (timeout_s (cfg m)) (Some x)], m)"
  using assms by (rule connect_open_raises)

theorem connect_open_failure_witness:
  "connect env_bad (init None) ''COM3'' =
     Some (Inl (SerialException ''could not open port''),
           [Serial_open ''COM3'' 115200 0.1 (Some (SerialException ''could not open port''))],
           init None) \<and>
   ser (init None) = None"
proof -
  have a: "HAS_SERIAL env_bad" and c: "''COM3'' \<noteq> []" and d: "\<not> lock (init None)"
    and g: "\<not> ser_is_open (init None)"
    and f: "open_raises env_bad ''COM3'' (baudrate (cfg (init None)))
      (timeout_s (cfg (init None))) = Some (SerialException ''could not open port'')"
    by (simp_all add: env_bad_def init_def ser_is_open_def)
  from connect_open_failure [OF a c d g f] show ?thesis
    by (simp add: init_def SerialConfig_default_def)
qed

text \<open>
  C7. In every state, a \<^verbatim>\<open>disconnect()\<close> that ends has returned, not raised; it has
  called \<^verbatim>\<open>close\<close> on the handle if one was present and on nothing else (whatever
  \<^verbatim>\<open>close\<close> raised is dropped), and it leaves the handle absent and the rest of the
  manager as it was. With the lock free it does end. On a new manager it makes no library
  call and changes nothing.
\<close>

theorem disconnect_never_fails:
  "(\<forall>r evs m'. disconnect e m = Some (r, evs, m') \<longrightarrow>
      r = Inr () \<and> ser m' = None \<and> m' = m\<lparr>ser := None\<rparr> \<and>
      evs = (case ser m of
               None \<Rightarrow> []
             | Some h \<Rightarrow> [Serial_close (port h) (close_raises e h)])) \<and>
   (\<forall>x evs m'. disconnect e m \<noteq> Some (Inl x, evs, m')) \<and>
   (\<not> lock m \<longrightarrow>
      disconnect e m =
        Some (Inr (),
              (case ser m of
                 None \<Rightarrow> []
               | Some h \<Rightarrow> [Serial_close (port h) (close_raises e h)]),
              m\<lparr>ser := None\<rparr>)) \<and>
   disconnect e (init c) = Some (Inr (), [], init c)"
proof -
  have one: "\<forall>r evs m'. disconnect e m = Some (r, evs, m') \<longrightarrow>
      r = Inr () \<and> ser m' = None \<and> m' = m\<lparr>ser := None\<rparr> \<and>
      evs = (case ser m of
               None \<Rightarrow> []
             | Some h \<Rightarrow> [Serial_close (port h) (close_raises e h)])"
  proof (intro allI impI)
    fix r evs m'
    assume "disconnect e m = Some (r, evs, m')"
    from disconnect_ends [OF this]
    have r: "r = Inr ()" and m: "m' = m\<lparr>ser := None\<rparr>"
      and v: "evs = (case ser m of
               None \<Rightarrow> []
             | Some h \<Rightarrow> [Serial_close (port h) (close_raises e h)])"
      by blast+
    from m have "ser m' = None" by simp
    with r m v show "r = Inr () \<and> ser m' = None \<and> m' = m\<lparr>ser := None\<rparr> \<and>
      evs = (case ser m of
               None \<Rightarrow> []
             | Some h \<Rightarrow> [Serial_close (port h) (close_raises e h)])"
      by blast
  qed
  have two: "\<forall>x evs m'. disconnect e m \<noteq> Some (Inl x, evs, m')"
    by (cases "lock m") (simp_all add: disconnect_held disconnect_free)
  have three: "\<not> lock m \<longrightarrow>
      disconnect e m =
        Some (Inr (),
              (case ser m of
                 None \<Rightarrow> []
               | Some h \<Rightarrow> [Serial_close (port h) (close_raises e h)]),
              m\<lparr>ser := None\<rparr>)"
    by (simp add: disconnect_free)
  have four: "disconnect e (init c) = Some (Inr (), [], init c)"
    by (simp add: disconnect_free init_def)
  from one two three four show ?thesis by blast
qed

theorem disconnect_never_fails_witness:
  "\<not> lock mgr_connected \<and>
   disconnect env_bad mgr_connected =
     Some (Inr (), [Serial_close ''COM3'' (Some (SerialException ''close failed''))],
           init None) \<and>
   ser (init None) = None \<and>
   disconnect env_bad (init None) = Some (Inr (), [], init None)"
proof -
  have f: "\<not> lock mgr_connected"
    by (simp add: mgr_connected_def init_def)
  have s: "ser mgr_connected = Some (opened (init None) ''COM3'')"
    by (simp add: mgr_connected_def)
  have c: "mgr_connected\<lparr>ser := None\<rparr> = init None"
    by (simp add: mgr_connected_def init_def)
  have k: "close_raises env_bad (opened (init None) ''COM3'') =
      Some (SerialException ''close failed'')"
    by (simp add: env_bad_def)
  have p: "port (opened (init None) ''COM3'') = ''COM3''"
    by (simp add: opened_def)
  have n: "ser (init None) = None"
    by (simp add: init_def)
  from disconnect_never_fails [of env_bad mgr_connected None]
  have "disconnect env_bad mgr_connected =
        Some (Inr (),
              (case ser mgr_connected of
                 None \<Rightarrow> []
               | Some h \<Rightarrow> [Serial_close (port h) (close_raises env_bad h)]),
              mgr_connected\<lparr>ser := None\<rparr>)"
    and "disconnect env_bad (init None) = Some (Inr (), [], init None)"
    using f by blast+
  with f n show ?thesis by (simp add: s c k p)
qed

text \<open>
  C8. Without pyserial, \<^verbatim>\<open>connect(port)\<close> fails with CapabilityUnavailable for every
  port and every manager, making no library call and changing nothing; and after any
  sequence of operations on a new manager, \<^verbatim>\<open>is_connected\<close> is false, the handle is
  absent and no library call was made.
\<close>

theorem capability_unavailable:
  "(\<not> HAS_SERIAL e \<longrightarrow> connect e m p = Some (Inl CapabilityUnavailable, [], m)) \<and>
   (list_all (\<lambda>x. \<not> HAS_SERIAL (fst x)) script \<and> run (init c) script = Some (evs, m') \<longrightarrow>
      is_connected m' = Some (Inr False, [], m') \<and> ser m' = None \<and> evs = [])"
proof
  show "\<not> HAS_SERIAL e \<longrightarrow> connect e m p = Some (Inl CapabilityUnavailable, [], m)"
    by (simp add: connect_unavailable)
next
  show "list_all (\<lambda>x. \<not> HAS_SERIAL (fst x)) script \<and> run (init c) script = Some (evs, m') \<longrightarrow>
      is_connected m' = Some (Inr False, [], m') \<and> ser m' = None \<and> evs = []"
  proof
    assume a: "list_all (\<lambda>x. \<not> HAS_SERIAL (fst x)) script \<and>
      run (init c) script = Some (evs, m')"
    have "\<not> lock (init c)" and "ser (init c) = None"
      by (simp_all add: init_def)
    with a run_unavailable [of "init c" script evs m']
    have "\<not> lock m' \<and> ser m' = None \<and> evs = []"
      by blast
    then show "is_connected m' = Some (Inr False, [], m') \<and> ser m' = None \<and> evs = []"
      by (simp add: is_connected_free ser_is_open_def)
  qed
qed

theorem capability_unavailable_witness:
  "\<not> HAS_SERIAL env_off \<and>
   connect env_off mgr_connected ''COM3'' =
     Some (Inl (RuntimeError ''pyserial is not installed.''), [], mgr_connected) \<and>
   list_all (\<lambda>x. \<not> HAS_SERIAL (fst x)) script_off \<and>
   run (init None) script_off = Some ([], init None) \<and>
   is_connected (init None) = Some (Inr False, [], init None)"
proof -
  have a: "\<not> HAS_SERIAL env_off"
    by (simp add: env_off_def env_ok_def)
  have b: "list_all (\<lambda>x. \<not> HAS_SERIAL (fst x)) script_off"
    by (simp add: script_off_def env_off_def env_ok_def)
  have c: "run (init None) script_off = Some ([], init None)"
    by (simp add: exec_defs)
  from capability_unavailable [of env_off mgr_connected "''COM3''" script_off None "[]" "init None"]
    a b c
  show ?thesis by (simp add: CapabilityUnavailable_def)
qed

text \<open>
  C9. \<^verbatim>\<open>list_ports_blocking()\<close> always returns a list and never raises: the empty list
  without a library call when pyserial is missing, the empty list when \<^verbatim>\<open>comports()\<close>
  raises, and the device names otherwise.
\<close>

theorem list_ports_never_raises:
  "(\<exists>ps evs. list_ports_blocking e m = Some (Inr ps, evs, m)) \<and>
   (\<not> HAS_SERIAL e \<longrightarrow> list_ports_blocking e m = Some (Inr [], [], m)) \<and>
   (HAS_SERIAL e \<and> comports e = Inl x \<longrightarrow>
      list_ports_blocking e m = Some (Inr [], [Comports (Some x)], m)) \<and>
   (HAS_SERIAL e \<and> comports e = Inr infos \<longrightarrow>
      list_ports_blocking e m = Some (Inr (map device infos), [Comports None], m))"
  by (auto simp: list_ports_blocking_def split: sum.splits)

theorem list_ports_never_raises_witness:
  "list_ports_blocking env_off (init None) = Some (Inr [], [], init None) \<and>
   list_ports_blocking env_bad mgr_connected =
     Some (Inr [], [Comports (Some (SerialException ''enumeration failed''))], mgr_connected) \<and>
   list_ports_blocking env_ok mgr_connected =
     Some (Inr [''COM3'', ''COM4''], [Comports None], mgr_connected)"
  using list_ports_never_raises [of env_off "init None"]
    list_ports_never_raises [of env_bad mgr_connected "SerialException ''enumeration failed''"]
    list_ports_never_raises [of env_ok mgr_connected _
      "[\<lparr>device = ''COM3''\<rparr>, \<lparr>device = ''COM4''\<rparr>]"]
  by (simp add: env_ok_def env_off_def env_bad_def)

text \<open>
  C10. A manager built without a configuration has baud rate 115200 and timeout 0.1; one
  built with a configuration has that one; and no operation that ends, and no sequence of
  them, changes the configuration.
\<close>

theorem cfg_immutable:
  "cfg (init None) = \<lparr>baudrate = 115200, timeout_s = 0.1\<rparr> \<and>
   cfg (init (Some k)) = k \<and>
   (step e m oper = Some (r, evs, m') \<longrightarrow> cfg m' = cfg m) \<and>
   (run m0 script = Some (evs', m'') \<longrightarrow> cfg m'' = cfg m0)"
  by (auto simp: init_def SerialConfig_default_def dest: step_cfg run_cfg)

theorem cfg_immutable_witness:
  "step env_ok (init (Some \<lparr>baudrate = 9600, timeout_s = 2\<rparr>)) (Connect ''COM3'') =
     Some (Inr RNone, [Serial_open ''COM3'' 9600 2 None],
           (init (Some \<lparr>baudrate = 9600, timeout_s = 2\<rparr>))
             \<lparr>ser := Some (opened (init (Some \<lparr>baudrate = 9600, timeout_s = 2\<rparr>)) ''COM3'')\<rparr>) \<and>
   cfg ((init (Some \<lparr>baudrate = 9600, timeout_s = 2\<rparr>))
          \<lparr>ser := Some (opened (init (Some \<lparr>baudrate = 9600, timeout_s = 2\<rparr>)) ''COM3'')\<rparr>) =
     \<lparr>baudrate = 9600, timeout_s = 2\<rparr> \<and>
   run mgr_connected script_off = Some ([Serial_close ''COM3'' None], init None) \<and>
   cfg (init None) = cfg mgr_connected"
proof -
  let ?k = "\<lparr>baudrate = 9600, timeout_s = 2\<rparr>"
  have a: "step env_ok (init (Some ?k)) (Connect ''COM3'') =
     Some (Inr RNone, [Serial_open ''COM3'' 9600 2 None],
           (init (Some ?k))\<lparr>ser := Some (opened (init (Some ?k)) ''COM3'')\<rparr>)"
    by (simp add: exec_defs)
  have b: "run mgr_connected script_off = Some ([Serial_close ''COM3'' None], init None)"
    by (simp add: exec_defs)
  from cfg_immutable [of ?k env_ok "init (Some ?k)" "Connect ''COM3''" "Inr RNone"
      "[Serial_open ''COM3'' 9600 2 None]"
      "(init (Some ?k))\<lparr>ser := Some (opened (init (Some ?k)) ''COM3'')\<rparr>"
      mgr_connected script_off "[Serial_close ''COM3'' None]" "init None"] a b
  show ?thesis by (simp add: mgr_connected_def)
qed

end
